theory Spec2Isabelle
  imports Complex_Main "HOL-Library.Char_ord" "HOL-Library.List_Lexorder"
    "HOL-Library.Product_Lexorder"
    "HOL-Library.Multiset"
begin

section \<open>Python values and library functions used by the client\<close>

text \<open>
  A Python \<open>str\<close> is a \<open>string\<close>: each \<open>char\<close> stands for one code point below 256,
  so the repertoire is Latin-1 and \<open>length\<close> counts code points as Python's \<open>len\<close> does.
  The functions below follow Python on that repertoire.
\<close>

definition code :: "char \<Rightarrow> nat" where
  "code c = of_char c"

text \<open>\<open>str.isspace\<close> on Latin-1: tab to carriage return, the four separators
  1C to 1F, space, NEL (85) and the no-break space (A0).\<close>

definition is_space :: "char \<Rightarrow> bool" where
  "is_space c = (let n = code c in
     (9 \<le> n \<and> n \<le> 13) \<or> (28 \<le> n \<and> n \<le> 32) \<or> n = 133 \<or> n = 160)"

definition strip :: "string \<Rightarrow> string" where
  "strip s = rev (dropWhile is_space (rev (dropWhile is_space s)))"

definition lower_char :: "char \<Rightarrow> char" where
  "lower_char c = (let n = code c in
     if (65 \<le> n \<and> n \<le> 90) \<or> (192 \<le> n \<and> n \<le> 222 \<and> n \<noteq> 215)
     then char_of (n + 32) else c)"

definition lower :: "string \<Rightarrow> string" where
  "lower s = map lower_char s"

text \<open>\<open>str.upper\<close>: the sharp s (DF) becomes \<open>SS\<close>. The micro sign (B5) and the
  y with diaeresis (FF) have their capital outside Latin-1; they are left as they are,
  and text holding them is outside what this model covers.\<close>

definition upper_char :: "char \<Rightarrow> string" where
  "upper_char c = (let n = code c in
     if (97 \<le> n \<and> n \<le> 122) \<or> (224 \<le> n \<and> n \<le> 254 \<and> n \<noteq> 247)
     then [char_of (n - 32)]
     else if n = 223 then ''SS'' else [c])"

definition upper :: "string \<Rightarrow> string" where
  "upper s = concat (map upper_char s)"

definition is_digit :: "char \<Rightarrow> bool" where
  "is_digit c = (48 \<le> code c \<and> code c \<le> 57)"


text \<open>
  \<open>int(s)\<close> on a string, base ten: surrounding whitespace is dropped, one sign is allowed,
  and the digits may be grouped by single underscores. \<open>None\<close> is Python's ValueError.
  (The interpreter's cap on the number of digits, 4300 by default, is not modelled.)
\<close>

fun int_body :: "string \<Rightarrow> bool \<Rightarrow> nat \<Rightarrow> nat option" where
  "int_body [] prev acc = (if prev then Some acc else None)"
| "int_body (c # cs) prev acc =
     (if is_digit c then int_body cs True (10 * acc + (code c - 48))
      else if c = CHR ''_'' \<and> prev then int_body cs False acc
      else None)"

definition int_of_str :: "string \<Rightarrow> int option" where
  "int_of_str s =
     (case strip s of
        [] \<Rightarrow> None
      | c # cs \<Rightarrow>
          if c = CHR ''-'' then map_option (\<lambda>n. - int n) (int_body cs False 0)
          else if c = CHR ''+'' then map_option int (int_body cs False 0)
          else map_option int (int_body (c # cs) False 0))"

text \<open>\<open>str(i)\<close> of an integer.\<close>

fun nat_digits :: "nat \<Rightarrow> string" where
  "nat_digits n = (if n < 10 then [char_of (48 + n)] else nat_digits (n div 10) @ [char_of (48 + n mod 10)])"

declare nat_digits.simps [simp del]

definition str_of_int :: "int \<Rightarrow> string" where
  "str_of_int i = (if i < 0 then CHR ''-'' # nat_digits (nat (- i)) else nat_digits (nat i))"

text \<open>
  A decoded JSON value. A dict is an association list in insertion order (Python builds
  dicts with distinct keys; lookup takes the binding found first). A float is given by
  the exact rational value of the double; infinities and NaN are outside the model.
\<close>

datatype json =
    JNull
  | JBool bool
  | JInt int
  | JFloat rat
  | JStr string
  | JArr "json list"
  | JObj "(string \<times> json) list"

type_synonym dict = "(string \<times> json) list"

datatype error =
    HashesApiError string
  | ValueError
  | TypeError
  | KeyError
  | AttributeError

text \<open>The messages of the client, under the names the specification gives the failures.\<close>

definition AuthRequired :: error where
  "AuthRequired = HashesApiError ''An API key is required for this action.''"

definition EmptyInput :: error where
  "EmptyInput = HashesApiError ''Please provide at least one hash to search.''"

definition BatchTooLarge :: error where
  "BatchTooLarge = HashesApiError ''The API allows up to 250 hashes per lookup request.''"

definition NoJobsSelected :: error where
  "NoJobsSelected = HashesApiError ''No jobs were selected for download.''"

definition InvalidResponse :: error where
  "InvalidResponse = HashesApiError ''Received invalid JSON from hashes.com.''"

definition UnexpectedFormat :: error where
  "UnexpectedFormat = HashesApiError ''Unexpected API response format.''"

section \<open>The world outside the client\<close>

text \<open>
  One HTTP request as \<open>session.request\<close> receives it. The body is a dict or a list of
  pairs, as the type of \<open>data\<close> in \<open>_request_json\<close> says.
\<close>

datatype body = BDict dict | BList "(string \<times> json) list"

record request =
  req_method :: string
  req_url :: string
  req_params :: "dict option"
  req_data :: "body option"
  req_timeout :: int

text \<open>What \<open>session.request\<close>, \<open>raise_for_status\<close> and \<open>response.json\<close> give:
  a \<open>requests.RequestException\<close> with its text, a body that is not JSON, or a value.\<close>

datatype http_reply = RequestException string | NotJson | Body json

text \<open>
  What one streamed download meets, in the order \<open>_stream_download\<close> meets it: the GET or
  \<open>raise_for_status\<close> raises (\<open>Refused\<close>); or there is a response with its
  Content-Length header (if any), the error of opening the destination (if any), the
  chunks that arrive and are written, and how the stream ends: normally, with a
  \<open>RequestException\<close> from the connection, or with an \<open>OSError\<close> from the next write.
\<close>

datatype ending = Complete | Broken string | WriteFails string

datatype transfer =
    Refused string
  | Reply "string option" "string option" "string list" ending

text \<open>
  The environment: the remote hosts, the disk's faults and the Python library functions
  that are taken as given. \<open>http n r\<close> answers request \<open>r\<close> when \<open>n\<close> requests went
  out before it; \<open>stream n u\<close> does the same for the download of URL \<open>u\<close>.
  \<open>write_fault p\<close> is the \<open>OSError\<close> text of \<open>Path.write_text\<close> on \<open>p\<close>, if it fails.
  \<open>float_of_str\<close> is \<open>float(s)\<close> on a string (\<open>None\<close>: ValueError), \<open>repr\<close> is \<open>str\<close> on
  floats, lists and dicts, \<open>usd_text\<close> is the floating-point part of \<open>convert_to_usd\<close>,
  and \<open>json_dumps\<close> is \<open>json.dumps\<close> with \<open>indent=4\<close>.
\<close>

record env =
  http :: "nat \<Rightarrow> request \<Rightarrow> http_reply"
  stream :: "nat \<Rightarrow> string \<Rightarrow> transfer"
  write_fault :: "string \<Rightarrow> string option"
  float_of_str :: "string \<Rightarrow> rat option"
  repr :: "json \<Rightarrow> string"
  usd_text :: "json \<Rightarrow> json \<Rightarrow> error + string"
  json_dumps :: "(string \<times> string) list \<Rightarrow> string"

text \<open>
  What the client has done to the world: the requests sent through \<open>session.request\<close>,
  the URLs fetched through \<open>session.get\<close>, the files, the number of \<open>time.sleep\<close> calls,
  and the calls of the progress callback.
\<close>

record world =
  sent :: "request list"
  fetched :: "string list"
  files :: "string \<rightharpoonup> string"
  sleeps :: nat
  progress :: "(nat \<times> nat \<times> nat \<times> int \<times> dict) list"

definition traffic :: "world \<Rightarrow> nat" where
  "traffic w = length (sent w) + length (fetched w)"

section \<open>The client\<close>

record client =
  api_key :: string
  timeout :: int
  conversion_cache :: "dict option"
  conversion_cache_at :: rat

definition init :: "string \<Rightarrow> int \<Rightarrow> client" where
  "init key t = \<lparr>api_key = strip key, timeout = t,
                 conversion_cache = None, conversion_cache_at = 0\<rparr>"

definition set_api_key :: "string \<Rightarrow> client \<Rightarrow> client" where
  "set_api_key key c = c\<lparr>api_key := strip key\<rparr>"

definition BASE_API_URL :: string where
  "BASE_API_URL = ''https://hashes.com/en/api''"

definition DOWNLOAD_BASE_URL :: string where
  "DOWNLOAD_BASE_URL = ''http://hashes.com''"

text \<open>\<open>str(v)\<close> and \<open>d.get(k, default)\<close>.\<close>

definition py_str :: "env \<Rightarrow> json \<Rightarrow> string" where
  "py_str E v =
     (case v of
        JNull \<Rightarrow> ''None''
      | JBool b \<Rightarrow> (if b then ''True'' else ''False'')
      | JInt i \<Rightarrow> str_of_int i
      | JStr s \<Rightarrow> s
      | _ \<Rightarrow> repr E v)"

definition get_or :: "dict \<Rightarrow> string \<Rightarrow> json \<Rightarrow> json" where
  "get_or d k dflt = (case map_of d k of None \<Rightarrow> dflt | Some v \<Rightarrow> v)"

text \<open>\<open>d[k] = v\<close> on a dict: a key that is present keeps its place.\<close>

fun dict_set :: "('k \<times> 'v) list \<Rightarrow> 'k \<Rightarrow> 'v \<Rightarrow> ('k \<times> 'v) list" where
  "dict_set [] k v = [(k, v)]"
| "dict_set ((k', v') # d) k v = (if k' = k then (k, v) # d else (k', v') # dict_set d k v)"

text \<open>
  \<open>_request_json\<close>. The key check comes first. \<open>dict(params or {})\<close> and the copy of
  \<open>data\<close> are values here; the section on containers below models them as objects.
\<close>

definition with_key :: "string \<Rightarrow> body option \<Rightarrow> body" where
  "with_key key data =
     (case data of
        None \<Rightarrow> BDict (dict_set [] ''key'' (JStr key))
      | Some (BDict d) \<Rightarrow> BDict (dict_set d ''key'' (JStr key))
      | Some (BList l) \<Rightarrow> BList (l @ [(''key'', JStr key)]))"

definition build_request ::
  "string \<Rightarrow> string \<Rightarrow> dict option \<Rightarrow> body option \<Rightarrow> bool \<Rightarrow> dict \<times> body option" where
  "build_request key method params data requires_api_key =
     (let request_params = (case params of None \<Rightarrow> [] | Some p \<Rightarrow> p) in
      if requires_api_key then
        if upper method = ''GET'' then (dict_set request_params ''key'' (JStr key), data)
        else (request_params, Some (with_key key data))
      else (request_params, data))"

definition check_payload :: "env \<Rightarrow> json \<Rightarrow> error + dict" where
  "check_payload E payload =
     (case payload of
        JObj d \<Rightarrow>
          if map_of d ''success'' = Some (JBool False)
          then Inl (HashesApiError (py_str E (get_or d ''message'' (JStr ''API request failed.''))))
          else Inr d
      | _ \<Rightarrow> Inl UnexpectedFormat)"

definition request_json ::
  "env \<Rightarrow> string \<Rightarrow> string \<Rightarrow> dict option \<Rightarrow> body option \<Rightarrow> bool \<Rightarrow> client \<Rightarrow> world
     \<Rightarrow> (error + dict) \<times> world" where
  "request_json E path method params data requires_api_key c w =
     (if requires_api_key \<and> api_key c = [] then (Inl AuthRequired, w)
      else
        let (request_params, request_data) =
              build_request (api_key c) method params data requires_api_key;
            r = \<lparr>req_method = upper method, req_url = BASE_API_URL @ path,
                 req_params = (if request_params = [] then None else Some request_params),
                 req_data = request_data, req_timeout = timeout c\<rparr>;
            w' = w\<lparr>sent := sent w @ [r]\<rparr>
        in case http E (traffic w) r of
             RequestException m \<Rightarrow> (Inl (HashesApiError (''Request failed: '' @ m)), w')
           | NotJson \<Rightarrow> (Inl InvalidResponse, w')
           | Body payload \<Rightarrow> (check_payload E payload, w'))"

text \<open>\<open>lookup_hashes\<close>: the entries are trimmed, blank ones dropped, nothing else.\<close>

definition hash_list :: "string list \<Rightarrow> string list" where
  "hash_list hashes = map strip (filter (\<lambda>h. h \<noteq> [] \<and> strip h \<noteq> []) hashes)"

definition lookup_hashes :: "env \<Rightarrow> string list \<Rightarrow> client \<Rightarrow> world \<Rightarrow> (error + dict) \<times> world" where
  "lookup_hashes E hashes c w =
     (let hl = hash_list hashes in
      if hl = [] then (Inl EmptyInput, w)
      else if length hl > 250 then (Inl BatchTooLarge, w)
      else request_json E ''/search'' ''POST'' None
             (Some (BDict [(''hashes[]'', JArr (map JStr hl))])) True c w)"

subsection \<open>Conversion rates\<close>

text \<open>A dict is true when it is not empty; \<open>None\<close> is false.\<close>

definition cache_truthy :: "dict option \<Rightarrow> bool" where
  "cache_truthy m = (case m of None \<Rightarrow> False | Some d \<Rightarrow> d \<noteq> [])"




subsection \<open>Jobs\<close>

text \<open>
  The value that \<open>sorted\<close> compares: a number (int, bool or float, compared by value as
  Python compares them) or a string. \<open>_sort_value\<close> tries \<open>int\<close>, then \<open>float\<close>, then
  falls back on the lower-cased text.
\<close>

datatype sort_key = KNum rat | KStr string

definition sort_value :: "env \<Rightarrow> json \<Rightarrow> sort_key" where
  "sort_value E v =
     (case v of
        JNull \<Rightarrow> KStr []
      | JBool b \<Rightarrow> KNum (if b then 1 else 0)
      | JInt i \<Rightarrow> KNum (of_int i)
      | JFloat r \<Rightarrow> KNum r
      | JStr s \<Rightarrow>
          (case int_of_str s of
             Some i \<Rightarrow> KNum (of_int i)
           | None \<Rightarrow>
               (case float_of_str E s of
                  Some r \<Rightarrow> KNum r
                | None \<Rightarrow> KStr (lower s)))
      | _ \<Rightarrow> KStr (lower (py_str E v)))"

definition is_num :: "sort_key \<Rightarrow> bool" where
  "is_num k = (case k of KNum _ \<Rightarrow> True | KStr _ \<Rightarrow> False)"

definition num_of :: "sort_key \<Rightarrow> rat" where
  "num_of k = (case k of KNum r \<Rightarrow> r | KStr _ \<Rightarrow> 0)"

definition str_of :: "sort_key \<Rightarrow> string" where
  "str_of k = (case k of KNum _ \<Rightarrow> [] | KStr s \<Rightarrow> s)"

text \<open>
  \<open>sorted(xs, key=..., reverse=...)\<close> on the rows with their keys already computed.
  The sort is stable; with \<open>reverse\<close> CPython reverses the list, sorts it and reverses
  the result, which keeps equal keys in their first order. Comparing a number with a
  string raises TypeError, and a sort of both kinds cannot avoid that comparison.
\<close>

definition order_by :: "('a \<Rightarrow> 'k::linorder) \<Rightarrow> bool \<Rightarrow> 'a list \<Rightarrow> 'a list" where
  "order_by f reverse xs = (if reverse then rev (sort_key f (rev xs)) else sort_key f xs)"

definition py_sorted :: "(sort_key \<times> 'a) list \<Rightarrow> bool \<Rightarrow> error + 'a list" where
  "py_sorted kxs reverse =
     (if list_all (\<lambda>p. is_num (fst p)) kxs
      then Inr (map snd (order_by (\<lambda>p. num_of (fst p)) reverse kxs))
      else if list_all (\<lambda>p. \<not> is_num (fst p)) kxs
      then Inr (map snd (order_by (\<lambda>p. str_of (fst p)) reverse kxs))
      else Inl TypeError)"

text \<open>Iterating a value: a list gives its items, a dict its keys, a string its
  characters; anything else is not iterable.\<close>

definition py_iter :: "json \<Rightarrow> error + json list" where
  "py_iter v =
     (case v of
        JArr xs \<Rightarrow> Inr xs
      | JObj d \<Rightarrow> Inr (map (\<lambda>p. JStr (fst p)) d)
      | JStr s \<Rightarrow> Inr (map (\<lambda>ch. JStr [ch]) s)
      | _ \<Rightarrow> Inl TypeError)"

text \<open>The comprehension \<open>[job for job in jobs if P(job.get(...))]\<close>: \<open>job.get\<close> exists
  on dicts only.\<close>

fun select_rows :: "(dict \<Rightarrow> bool) \<Rightarrow> json list \<Rightarrow> error + json list" where
  "select_rows P [] = Inr []"
| "select_rows P (j # js) =
     (case j of
        JObj d \<Rightarrow>
          (case select_rows P js of
             Inl e \<Rightarrow> Inl e
           | Inr r \<Rightarrow> Inr (if P d then j # r else r))
      | _ \<Rightarrow> Inl AttributeError)"

fun keyed_rows :: "env \<Rightarrow> string \<Rightarrow> json list \<Rightarrow> error + (sort_key \<times> json) list" where
  "keyed_rows E sortby [] = Inr []"
| "keyed_rows E sortby (j # js) =
     (case j of
        JObj d \<Rightarrow>
          (case keyed_rows E sortby js of
             Inl e \<Rightarrow> Inl e
           | Inr r \<Rightarrow> Inr ((sort_value E (get_or d sortby JNull), j) # r))
      | _ \<Rightarrow> Inl AttributeError)"

text \<open>A filter is a set or \<open>None\<close>; an empty set counts as no filter.\<close>

definition apply_filter ::
  "string list option \<Rightarrow> (dict \<Rightarrow> string) \<Rightarrow> json \<Rightarrow> error + json" where
  "apply_filter flt field jobs =
     (case flt of
        None \<Rightarrow> Inr jobs
      | Some allowed \<Rightarrow>
          if allowed = [] then Inr jobs
          else (case py_iter jobs of
                  Inl e \<Rightarrow> Inl e
                | Inr rows \<Rightarrow>
                    (case select_rows (\<lambda>d. field d \<in> set allowed) rows of
                       Inl e \<Rightarrow> Inl e
                     | Inr r \<Rightarrow> Inr (JArr r))))"

definition sort_jobs :: "env \<Rightarrow> string \<Rightarrow> bool \<Rightarrow> json \<Rightarrow> error + json list" where
  "sort_jobs E sortby reverse jobs =
     (case py_iter jobs of
        Inl e \<Rightarrow> Inl e
      | Inr rows \<Rightarrow>
          (case keyed_rows E sortby rows of
             Inl e \<Rightarrow> Inl e
           | Inr kxs \<Rightarrow> py_sorted kxs reverse))"

definition get_jobs ::
  "env \<Rightarrow> string \<Rightarrow> bool \<Rightarrow> string list option \<Rightarrow> string list option \<Rightarrow> client \<Rightarrow> world
     \<Rightarrow> (error + json list) \<times> world" where
  "get_jobs E sortby reverse currency_filter algorithm_filter c w =
     (case request_json E ''/jobs'' ''GET'' None None True c w of
        (Inl e, w') \<Rightarrow> (Inl e, w')
      | (Inr payload, w') \<Rightarrow>
          (case apply_filter currency_filter
                  (\<lambda>d. upper (py_str E (get_or d ''currency'' (JStr []))))
                  (get_or payload ''list'' (JArr [])) of
             Inl e \<Rightarrow> (Inl e, w')
           | Inr jobs1 \<Rightarrow>
               (case apply_filter algorithm_filter
                       (\<lambda>d. py_str E (get_or d ''algorithmId'' (JStr []))) jobs1 of
                  Inl e \<Rightarrow> (Inl e, w')
                | Inr jobs2 \<Rightarrow> (sort_jobs E sortby reverse jobs2, w'))))"

definition get_balance :: "env \<Rightarrow> client \<Rightarrow> world \<Rightarrow> (error + (string \<times> string) list) \<times> world" where
  "get_balance E c w =
     (case request_json E ''/balance'' ''GET'' None None True c w of
        (Inl e, w') \<Rightarrow> (Inl e, w')
      | (Inr payload, w') \<Rightarrow>
          (Inr (map (\<lambda>p. (fst p, py_str E (snd p))) (filter (\<lambda>p. fst p \<noteq> ''success'') payload)), w'))"

subsection \<open>Left-list downloads\<close>

text \<open>\<open>int(v)\<close> on a decoded value: a float is cut towards zero, a string is parsed,
  \<open>None\<close>, lists and dicts raise TypeError.\<close>

definition py_int :: "json \<Rightarrow> error + int" where
  "py_int v =
     (case v of
        JBool b \<Rightarrow> Inr (if b then 1 else 0)
      | JInt i \<Rightarrow> Inr i
      | JFloat r \<Rightarrow> Inr (if r < 0 then - \<lfloor>- r\<rfloor> else \<lfloor>r\<rfloor>)
      | JStr s \<Rightarrow> (case int_of_str s of None \<Rightarrow> Inl ValueError | Some i \<Rightarrow> Inr i)
      | _ \<Rightarrow> Inl TypeError)"

text \<open>\<open>int(response.headers.get("Content-Length") or 0)\<close>: no header and an empty
  header give 0; any other text goes through \<open>int\<close>, and \<open>None\<close> is its ValueError.\<close>

definition total_size :: "string option \<Rightarrow> int option" where
  "total_size cl =
     (case cl of
        None \<Rightarrow> Some 0
      | Some s \<Rightarrow> if s = [] then Some 0 else int_of_str s)"

definition quoted :: "string \<Rightarrow> string" where
  "quoted s = [CHR 0x27] @ s @ [CHR 0x27]"

definition download_failed :: "string \<Rightarrow> string \<Rightarrow> string" where
  "download_failed url_path m = ''Failed downloading '' @ quoted url_path @ '': '' @ m"

definition write_failed :: "string \<Rightarrow> string \<Rightarrow> string" where
  "write_failed destination m = ''Failed writing file '' @ quoted destination @ '': '' @ m"

definition contents :: "world \<Rightarrow> string \<Rightarrow> string" where
  "contents w p = (case files w p of None \<Rightarrow> [] | Some s \<Rightarrow> s)"

text \<open>
  The loop over \<open>iter_content\<close>: an empty chunk is skipped, any other is written and
  counted, and the progress callback, when there is one, is told. The callback that
  \<open>download_left_lists\<close> passes is given by what it reports with: the job's index, the
  number of jobs and the job; \<open>None\<close> stands for no \<open>on_progress\<close>.
\<close>

fun write_chunks ::
  "(nat \<times> nat \<times> dict) option \<Rightarrow> string \<Rightarrow> int \<Rightarrow> string list \<Rightarrow> nat \<Rightarrow> world \<Rightarrow> nat \<times> world" where
  "write_chunks cb dest tsize [] downloaded w = (downloaded, w)"
| "write_chunks cb dest tsize (ch # chs) downloaded w =
     (if ch = [] then write_chunks cb dest tsize chs downloaded w
      else
        let w1 = w\<lparr>files := (files w)(dest \<mapsto> contents w dest @ ch)\<rparr>;
            d = downloaded + length ch;
            w2 = (case cb of
                    None \<Rightarrow> w1
                  | Some (i, n, job) \<Rightarrow> w1\<lparr>progress := progress w1 @ [(i, n, d, tsize, job)]\<rparr>)
        in write_chunks cb dest tsize chs d w2)"

definition stream_download ::
  "env \<Rightarrow> string \<Rightarrow> string \<Rightarrow> bool \<Rightarrow> (nat \<times> nat \<times> dict) option \<Rightarrow> world
     \<Rightarrow> (error + nat) \<times> world" where
  "stream_download E url_path destination append_mode cb w =
     (let url = DOWNLOAD_BASE_URL @ url_path;
          w1 = w\<lparr>fetched := fetched w @ [url]\<rparr>
      in case stream E (traffic w) url of
           Refused m \<Rightarrow> (Inl (HashesApiError (download_failed url_path m)), w1)
         | Reply cl open_error chunks ending \<Rightarrow>
             (case total_size cl of
                None \<Rightarrow> (Inl ValueError, w1)
              | Some tsize \<Rightarrow>
                  (case open_error of
                     Some m \<Rightarrow> (Inl (HashesApiError (write_failed destination m)), w1)
                   | None \<Rightarrow>
                       let w2 = w1\<lparr>files := (files w1)(destination \<mapsto>
                                   (if append_mode then contents w1 destination else []))\<rparr>;
                           (downloaded, w3) = write_chunks cb destination tsize chunks 0 w2
                       in case ending of
                            Complete \<Rightarrow> (Inr downloaded, w3)
                          | Broken m \<Rightarrow> (Inl (HashesApiError (download_failed url_path m)), w3)
                          | WriteFails m \<Rightarrow> (Inl (HashesApiError (write_failed destination m)), w3))))"

text \<open>
  The loop of \<open>download_left_lists\<close> over \<open>enumerate(jobs, start=1)\<close>, with its four
  variables. The \<open>except\<close> clause catches the client's own error (the only one of the
  three classes that \<open>_stream_download\<close> lets out); any other exception ends the batch.
\<close>

fun download_loop ::
  "env \<Rightarrow> string \<Rightarrow> bool \<Rightarrow> nat \<Rightarrow> nat \<Rightarrow> dict list \<Rightarrow> nat \<Rightarrow> (int \<times> string) list \<Rightarrow> bool \<Rightarrow> world
     \<Rightarrow> (error + nat \<times> (int \<times> string) list) \<times> world" where
  "download_loop E destination on_progress n index [] bytes_written failed append_mode w =
     (Inr (bytes_written, failed), w)"
| "download_loop E destination on_progress n index (job # rest) bytes_written failed append_mode w =
     (let url_path = py_str E (get_or job ''leftList'' (JStr [])) in
      if url_path = [] then
        (case py_int (get_or job ''id'' (JInt 0)) of
           Inl e \<Rightarrow> (Inl e, w)
         | Inr i \<Rightarrow>
             download_loop E destination on_progress n (Suc index) rest bytes_written
               (failed @ [(i, ''No left list URL'')]) append_mode w)
      else
        let w1 = (if index > 1 then w\<lparr>sleeps := Suc (sleeps w)\<rparr> else w) in
        case stream_download E url_path destination append_mode
               (if on_progress then Some (index, n, job) else None) w1 of
          (Inr k, w2) \<Rightarrow>
            download_loop E destination on_progress n (Suc index) rest (bytes_written + k)
              failed True w2
        | (Inl (HashesApiError m), w2) \<Rightarrow>
            (case py_int (get_or job ''id'' (JInt 0)) of
               Inl e \<Rightarrow> (Inl e, w2)
             | Inr i \<Rightarrow>
                 download_loop E destination on_progress n (Suc index) rest bytes_written
                   (failed @ [(i, m)]) append_mode w2)
        | (Inl e, w2) \<Rightarrow> (Inl e, w2))"

definition download_left_lists ::
  "env \<Rightarrow> dict list \<Rightarrow> string \<Rightarrow> bool \<Rightarrow> world \<Rightarrow> (error + nat \<times> (int \<times> string) list) \<times> world" where
  "download_left_lists E jobs destination on_progress w =
     (if jobs = [] then (Inl NoJobsSelected, w)
      else download_loop E destination on_progress (length jobs) 1 jobs 0 [] False w)"

subsection \<open>The algorithm directory\<close>







section \<open>The parameter containers as objects\<close>

text \<open>
  \<open>_request_json\<close> receives references to the caller's \<open>params\<close> and \<open>data\<close>. Here the
  containers live in a store: an address is an index, and making an object appends
  it. \<open>build_request_heap\<close> is the part of \<open>_request_json\<close> between the key check and the
  call of \<open>session.request\<close>: it returns the addresses of \<open>request_params\<close> and of
  \<open>request_data\<close>. A dangling address cannot occur in Python; it gives \<open>None\<close> here.
\<close>

datatype obj = ODict dict | OList "(string \<times> json) list"

type_synonym heap = "obj list"

definition alloc :: "heap \<Rightarrow> obj \<Rightarrow> nat \<times> heap" where
  "alloc h ob = (length h, h @ [ob])"

definition deref :: "heap \<Rightarrow> nat \<Rightarrow> obj option" where
  "deref h a = (if a < length h then Some (h ! a) else None)"

text \<open>\<open>dict(x)\<close>: a copy of a dict; from a list of pairs, the dict they build.\<close>

definition dict_of :: "obj \<Rightarrow> dict" where
  "dict_of ob = (case ob of ODict d \<Rightarrow> d | OList l \<Rightarrow> foldl (\<lambda>d p. dict_set d (fst p) (snd p)) [] l)"

definition obj_truthy :: "obj \<Rightarrow> bool" where
  "obj_truthy ob = (case ob of ODict d \<Rightarrow> d \<noteq> [] | OList l \<Rightarrow> l \<noteq> [])"

text \<open>\<open>request_data["key"] = ...\<close> on a copied dict, \<open>request_data.append(...)\<close> on a
  copied list: an update of the object at one address.\<close>

definition inject :: "string \<Rightarrow> obj \<Rightarrow> obj" where
  "inject key ob =
     (case ob of
        ODict d \<Rightarrow> ODict (dict_set d ''key'' (JStr key))
      | OList l \<Rightarrow> OList (l @ [(''key'', JStr key)]))"

definition build_request_heap ::
  "string \<Rightarrow> string \<Rightarrow> nat option \<Rightarrow> nat option \<Rightarrow> bool \<Rightarrow> heap \<Rightarrow> (nat \<times> nat option \<times> heap) option" where
  "build_request_heap key method params data requires_api_key h =
     (case (case params of
              None \<Rightarrow> Some (ODict [])
            | Some a \<Rightarrow> map_option (\<lambda>ob. if obj_truthy ob then ODict (dict_of ob) else ODict []) (deref h a)) of
        None \<Rightarrow> None
      | Some fresh \<Rightarrow>
          let (request_params, h1) = alloc h fresh in
          if requires_api_key then
            if upper method = ''GET''
            then Some (request_params, data, h1[request_params := inject key (h1 ! request_params)])
            else
              (case (case data of None \<Rightarrow> Some (ODict []) | Some a \<Rightarrow> deref h1 a) of
                 None \<Rightarrow> None
               | Some ob \<Rightarrow>
                   let (request_data, h2) = alloc h1 ob
                   in Some (request_params, Some request_data,
                            h2[request_data := inject key (h2 ! request_data)]))
          else Some (request_params, data, h1))"

section \<open>Sample environments\<close>

text \<open>A remote side that answers every request with an empty object and refuses every
  download, and a world in which nothing has happened yet.\<close>

definition sample_env :: env where
  "sample_env = \<lparr>http = (\<lambda>n r. Body (JObj [])), stream = (\<lambda>n u. Refused ''down''),
     write_fault = (\<lambda>p. None), float_of_str = (\<lambda>s. None), repr = (\<lambda>v. ''?''),
     usd_text = (\<lambda>a b. Inr ''$1.000''), json_dumps = (\<lambda>kvs. concat (map fst kvs))\<rparr>"

definition world0 :: world where
  "world0 = \<lparr>sent = [], fetched = [], files = Map.empty, sleeps = 0, progress = []\<rparr>"



text \<open>The test of \<open>get_conversion_rates\<close>: a table that is not empty and younger than
  the TTL.\<close>

definition fresh :: "int \<Rightarrow> rat \<Rightarrow> client \<Rightarrow> bool" where
  "fresh cache_seconds now c =
     (case conversion_cache c of
        None \<Rightarrow> False
      | Some t \<Rightarrow> t \<noteq> [] \<and> now - conversion_cache_at c < of_int cache_seconds)"




text \<open>The request body that an object stands for, and the reading of an optional
  reference.\<close>

definition body_of :: "obj \<Rightarrow> body" where
  "body_of ob = (case ob of ODict d \<Rightarrow> BDict d | OList l \<Rightarrow> BList l)"

definition valid_ref :: "heap \<Rightarrow> nat option \<Rightarrow> bool" where
  "valid_ref h r = (case r of None \<Rightarrow> True | Some a \<Rightarrow> a < length h)"

text \<open>A store with the two containers of a caller: a dict of parameters at address 0
  and a list of body fields at address 1.\<close>

definition caller_heap :: heap where
  "caller_heap = [ODict [(''hash'', JStr ''abc'')], OList [(''hashes[]'', JStr ''abc'')]]"



text \<open>A service that lists the given jobs.\<close>

definition jobs_env :: "json list \<Rightarrow> env" where
  "jobs_env rows = sample_env\<lparr>http := (\<lambda>n r. Body (JObj
     [(''success'', JBool True), (''list'', JArr rows)]))\<rparr>"

definition job :: "int \<Rightarrow> string \<Rightarrow> string \<Rightarrow> json" where
  "job i k v = JObj [(''id'', JInt i), (k, JStr v)]"



definition mixed_rows :: "json list" where
  "mixed_rows = [job 1 ''hints'' ''10'', job 2 ''hints'' ''abc'']"

definition sparse_rows :: "json list" where
  "sparse_rows = [JObj [(''id'', JInt 1), (''left'', JInt 5)], JObj [(''id'', JInt 2)]]"



definition left_job :: "int \<Rightarrow> string \<Rightarrow> dict" where
  "left_job i u = [(''id'', JInt i), (''leftList'', JStr u)]"



text \<open>A host that sends a Content-Length header that is not a number.\<close>

definition garbled_env :: env where
  "garbled_env = sample_env\<lparr>stream := (\<lambda>n u. Reply (Some ''abc'') None [''xx''] Complete)\<rparr>"

section \<open>Trimming and the credential\<close>

lemma strip_empty_iff: "(strip s = []) = (\<forall>ch \<in> set s. is_space ch)"
proof
  assume a: "strip s = []"
  have all: "\<forall>x \<in> set (dropWhile is_space s). is_space x"
    using a by (simp add: strip_def dropWhile_eq_Nil_conv)
  have "dropWhile is_space s = []"
  proof (cases "dropWhile is_space s")
    case Nil then show ?thesis .
  next
    case (Cons y ys)
    then have "\<not> is_space y" using hd_dropWhile[of is_space s] by auto
    moreover have "is_space y" using all Cons by simp
    ultimately show ?thesis by simp
  qed
  then show "\<forall>ch \<in> set s. is_space ch" by (simp add: dropWhile_eq_Nil_conv)
next
  assume "\<forall>ch \<in> set s. is_space ch"
  then have d: "dropWhile is_space s = []" by (simp add: dropWhile_eq_Nil_conv)
  show "strip s = []" unfolding strip_def d by simp
qed

lemma strip_trimmed:
  "\<exists>a b. s = a @ strip s @ b \<and> (\<forall>ch \<in> set a. is_space ch) \<and> (\<forall>ch \<in> set b. is_space ch)"
proof -
  define d where "d = dropWhile is_space s"
  have s: "s = takeWhile is_space s @ d" by (simp add: d_def)
  have d: "d = strip s @ rev (takeWhile is_space (rev d))"
  proof -
    have "strip s @ rev (takeWhile is_space (rev d))
          = rev (takeWhile is_space (rev d) @ dropWhile is_space (rev d))"
      unfolding strip_def d_def by (simp only: rev_append)
    also have "\<dots> = d" by (simp only: takeWhile_dropWhile_id rev_rev_ident)
    finally show ?thesis by simp
  qed
  have a: "\<forall>ch \<in> set (takeWhile is_space s). is_space ch"
    by (auto dest: set_takeWhileD)
  have b: "\<forall>ch \<in> set (rev (takeWhile is_space (rev d))). is_space ch"
    by (auto dest: set_takeWhileD)
  from s d have "s = takeWhile is_space s @ strip s @ rev (takeWhile is_space (rev d))" by simp
  with a b show ?thesis by blast
qed

lemma strip_ends:
  "strip s \<noteq> [] \<Longrightarrow> \<not> is_space (hd (strip s)) \<and> \<not> is_space (last (strip s))"
proof -
  assume ne: "strip s \<noteq> []"
  define d where "d = dropWhile is_space s"
  define e where "e = dropWhile is_space (rev d)"
  have st: "strip s = rev e" by (simp add: strip_def d_def e_def)
  have ene: "e \<noteq> []" using ne st by simp
  have l: "\<not> is_space (hd e)" using ene hd_dropWhile[of is_space "rev d"] by (simp add: e_def)
  have dne: "d \<noteq> []" using ene e_def by auto
  have hd_d: "\<not> is_space (hd d)" using dne hd_dropWhile[of is_space s] by (simp add: d_def)
  have "rev d = takeWhile is_space (rev d) @ e" by (simp add: e_def)
  then have "rev (rev d) = rev (takeWhile is_space (rev d) @ e)" by simp
  then have "d = rev e @ rev (takeWhile is_space (rev d))" by simp
  then have "hd d = hd (rev e)" using ene by (metis hd_append2 rev_is_Nil_conv)
  with hd_d l st ene show ?thesis by (simp add: last_rev)
qed

lemma hash_list_alt: "hash_list hashes = filter (\<lambda>h. h \<noteq> []) (map strip hashes)"
proof -
  have "\<And>h. (h \<noteq> [] \<and> strip h \<noteq> []) = (strip h \<noteq> [])"
    by (auto simp: strip_def)
  then show ?thesis
    unfolding hash_list_def by (induction hashes) simp_all
qed

lemma request_json_unauth:
  "api_key c = [] \<Longrightarrow> request_json E path method params data True c w = (Inl AuthRequired, w)"
  by (simp add: request_json_def)

lemma request_json_sent:
  "\<not> (req \<and> api_key c = []) \<Longrightarrow>
   length (sent (snd (request_json E path method params data req c w))) = Suc (length (sent w))"
  by (simp add: request_json_def Let_def split: prod.splits http_reply.splits)

text \<open>
  C8. The stored credential is the trimmed form of the string given to the constructor or
  to \<open>set_api_key\<close>: the string is the credential between two runs of whitespace, and the
  credential neither starts nor ends with whitespace, so that a string of whitespace only
  leaves the client without a credential. With no credential, a request that requires one
  fails with the message of \<open>AuthRequired\<close> and leaves the world as it was: nothing has
  been sent. So do the operations that require the key.
\<close>

theorem credential_trimmed_and_required:
  "api_key (init key t) = strip key
   \<and> api_key (set_api_key key c) = strip key
   \<and> (\<exists>a b. key = a @ strip key @ b \<and> (\<forall>ch \<in> set a. is_space ch) \<and> (\<forall>ch \<in> set b. is_space ch))
   \<and> (strip key \<noteq> [] \<longrightarrow> \<not> is_space (hd (strip key)) \<and> \<not> is_space (last (strip key)))
   \<and> ((api_key (set_api_key key c) = []) = (\<forall>ch \<in> set key. is_space ch))
   \<and> (api_key c = [] \<longrightarrow>
        request_json E path method params data True c w = (Inl AuthRequired, w)
        \<and> get_jobs E sortby reverse currency_filter algorithm_filter c w = (Inl AuthRequired, w)
        \<and> get_balance E c w = (Inl AuthRequired, w)
        \<and> snd (lookup_hashes E hashes c w) = w
        \<and> (hash_list hashes \<noteq> [] \<and> length (hash_list hashes) \<le> 250 \<longrightarrow>
             lookup_hashes E hashes c w = (Inl AuthRequired, w)))"
proof -
  have 1: "api_key (init key t) = strip key" by (simp add: init_def)
  have 2: "api_key (set_api_key key c) = strip key" by (simp add: set_api_key_def)
  have 5: "(api_key (set_api_key key c) = []) = (\<forall>ch \<in> set key. is_space ch)"
    by (simp add: set_api_key_def strip_empty_iff)
  have 6: "api_key c = [] \<longrightarrow>
        request_json E path method params data True c w = (Inl AuthRequired, w)
        \<and> get_jobs E sortby reverse currency_filter algorithm_filter c w = (Inl AuthRequired, w)
        \<and> get_balance E c w = (Inl AuthRequired, w)
        \<and> snd (lookup_hashes E hashes c w) = w
        \<and> (hash_list hashes \<noteq> [] \<and> length (hash_list hashes) \<le> 250 \<longrightarrow>
             lookup_hashes E hashes c w = (Inl AuthRequired, w))"
    by (simp add: request_json_unauth get_jobs_def get_balance_def lookup_hashes_def Let_def)
  from 1 2 5 6 strip_trimmed[of key] strip_ends[of key] show ?thesis by blast
qed

theorem credential_trimmed_and_required_witness:
  "api_key (set_api_key ''  '' (init ''k'' 20)) = []
   \<and> strip '' k '' = ''k''
   \<and> get_jobs sample_env ''createdAt'' True None None (init ''  '' 20) world0 = (Inl AuthRequired, world0)
   \<and> lookup_hashes sample_env [''abc''] (init ''  '' 20) world0 = (Inl AuthRequired, world0)"
  using credential_trimmed_and_required[of "''  ''" 20 "init ''  '' 20" sample_env "[]" "[]" None None
      world0 "''createdAt''" True None None "[''abc'']"]
    credential_trimmed_and_required[of "'' k ''" 20 "init ''  '' 20" sample_env "[]" "[]" None None
      world0 "''createdAt''" True None None "[''abc'']"]
  by (simp add: init_def set_api_key_def strip_def is_space_def code_def hash_list_def)

section \<open>Bulk lookup\<close>

text \<open>
  C2, as the code has it. \<open>lookup_hashes\<close> trims the entries and drops the blank ones, and
  counts what is left with its repeats: nothing is deduplicated. No entry left fails with
  the message of \<open>EmptyInput\<close>, more than 250 entries fail with that of \<open>BatchTooLarge\<close>,
  both before anything is sent; with a credential, the request goes out exactly when
  between 1 and 250 entries are left.
\<close>

theorem lookup_hashes_validation:
  "(hash_list hashes = [] \<longrightarrow> lookup_hashes E hashes c w = (Inl EmptyInput, w))
   \<and> (250 < length (hash_list hashes) \<longrightarrow> lookup_hashes E hashes c w = (Inl BatchTooLarge, w))
   \<and> (api_key c \<noteq> [] \<longrightarrow>
        (length (sent (snd (lookup_hashes E hashes c w))) = Suc (length (sent w)))
          = (1 \<le> length (hash_list hashes) \<and> length (hash_list hashes) \<le> 250))
   \<and> hash_list hashes = filter (\<lambda>h. h \<noteq> []) (map strip hashes)"
proof -
  have a: "hash_list hashes = [] \<longrightarrow> lookup_hashes E hashes c w = (Inl EmptyInput, w)"
    by (simp add: lookup_hashes_def)
  have b: "250 < length (hash_list hashes) \<longrightarrow> lookup_hashes E hashes c w = (Inl BatchTooLarge, w)"
    by (auto simp: lookup_hashes_def Let_def)
  have c: "api_key c \<noteq> [] \<longrightarrow>
        (length (sent (snd (lookup_hashes E hashes c w))) = Suc (length (sent w)))
          = (1 \<le> length (hash_list hashes) \<and> length (hash_list hashes) \<le> 250)"
    by (cases "hash_list hashes") (simp_all add: lookup_hashes_def Let_def request_json_sent)
  from a b c hash_list_alt[of hashes] show ?thesis by blast
qed

lemma hash_list_replicate: "hash_list (replicate n ''a'') = replicate n ''a''"
  by (simp add: hash_list_def strip_def is_space_def code_def)

theorem lookup_hashes_validation_witness:
  "lookup_hashes sample_env ['' '', []] (init ''k'' 20) world0 = (Inl EmptyInput, world0)
   \<and> lookup_hashes sample_env (replicate 251 ''a'') (init ''k'' 20) world0 = (Inl BatchTooLarge, world0)
   \<and> length (sent (snd (lookup_hashes sample_env (replicate 250 ''a'') (init ''k'' 20) world0))) = 1"
  using lookup_hashes_validation[of "['' '', []]" sample_env "init ''k'' 20" world0]
    lookup_hashes_validation[of "replicate 251 ''a''" sample_env "init ''k'' 20" world0]
    lookup_hashes_validation[of "replicate 250 ''a''" sample_env "init ''k'' 20" world0]
  by (simp add: hash_list_replicate)
     (simp add: hash_list_def strip_def is_space_def code_def init_def world0_def)

text \<open>The claim of C2 speaks of the deduplicated set. 251 copies of one hash make a set
  of one entry, and the call fails as too large.\<close>

theorem lookup_hashes_dedup_counterexample:
  "card (set (hash_list (replicate 251 ''a''))) = 1
   \<and> lookup_hashes sample_env (replicate 251 ''a'') (init ''k'' 20) world0 = (Inl BatchTooLarge, world0)"
  by (simp add: hash_list_replicate lookup_hashes_def)

section \<open>The conversion cache\<close>











section \<open>Conversion to dollars\<close>


lemma upper_GET: "upper ''GET'' = ''GET''"
  by code_simp









section \<open>The algorithm directory\<close>








section \<open>The caller's containers\<close>

lemma dict_of_fresh:
  "dict_of (if obj_truthy ob then ODict (dict_of ob) else ODict []) = dict_of ob"
  by (cases ob) (auto simp: dict_of_def obj_truthy_def)

lemma body_of_inject: "body_of (inject key ob) = with_key key (Some (body_of ob))"
  by (cases ob) (simp_all add: body_of_def inject_def with_key_def)

lemma body_of_inject_empty: "body_of (inject key (ODict [])) = with_key key None"
  by (simp add: body_of_def inject_def with_key_def)

lemma dict_of_inject_dict: "dict_of (inject key (ODict d)) = dict_set d ''key'' (JStr key)"
  by (simp add: dict_of_def inject_def)

lemma build_request_heap_get:
  assumes "valid_ref h params" "valid_ref h data" "upper method = ''GET''"
  shows "\<exists>h'. build_request_heap key method params data True h = Some (length h, data, h')
     \<and> length h' = Suc (length h)
     \<and> (\<forall>a < length h. h' ! a = h ! a)
     \<and> dict_of (h' ! length h)
        = dict_set (case params of None \<Rightarrow> [] | Some a \<Rightarrow> dict_of (h ! a)) ''key'' (JStr key)"
proof (cases params)
  case None
  then show ?thesis using assms
    by (simp add: build_request_heap_def alloc_def dict_of_inject_dict nth_append)
next
  case (Some a)
  then have a: "a < length h" using assms by (simp add: valid_ref_def)
  define fresh where "fresh = (if obj_truthy (h ! a) then ODict (dict_of (h ! a)) else ODict [])"
  have f: "fresh = ODict (dict_of (h ! a))"
    using dict_of_fresh[of "h ! a"] by (auto simp: fresh_def dict_of_def)
  show ?thesis using Some a assms f
    by (simp add: build_request_heap_def alloc_def deref_def fresh_def[symmetric]
        dict_of_inject_dict nth_append)
qed

lemma build_request_heap_other:
  assumes "valid_ref h params" "valid_ref h data" "upper method \<noteq> ''GET''"
  shows "\<exists>h'. build_request_heap key method params data True h
        = Some (length h, Some (Suc (length h)), h')
     \<and> length h' = Suc (Suc (length h))
     \<and> (\<forall>a < length h. h' ! a = h ! a)
     \<and> dict_of (h' ! length h) = (case params of None \<Rightarrow> [] | Some a \<Rightarrow> dict_of (h ! a))
     \<and> body_of (h' ! Suc (length h))
        = with_key key (case data of None \<Rightarrow> None | Some a \<Rightarrow> Some (body_of (h ! a)))"
proof -
  define fresh where "fresh = (case params of None \<Rightarrow> ODict []
      | Some a \<Rightarrow> if obj_truthy (h ! a) then ODict (dict_of (h ! a)) else ODict [])"
  have p: "(case params of None \<Rightarrow> Some (ODict [])
            | Some a \<Rightarrow> map_option (\<lambda>ob. if obj_truthy ob then ODict (dict_of ob) else ODict [])
                          (deref h a)) = Some fresh"
    using assms(1) by (auto simp: fresh_def valid_ref_def deref_def split: option.splits)
  have fd: "dict_of fresh = (case params of None \<Rightarrow> [] | Some a \<Rightarrow> dict_of (h ! a))"
    using dict_of_fresh by (auto simp: fresh_def dict_of_def split: option.splits)
  define ob where "ob = (case data of None \<Rightarrow> ODict [] | Some a \<Rightarrow> h ! a)"
  have d: "(case data of None \<Rightarrow> Some (ODict []) | Some a \<Rightarrow> deref (h @ [fresh]) a) = Some ob"
    using assms(2) by (auto simp: ob_def valid_ref_def deref_def nth_append split: option.splits)
  have bo: "body_of (inject key ob)
        = with_key key (case data of None \<Rightarrow> None | Some a \<Rightarrow> Some (body_of (h ! a)))"
  proof (cases data)
    case None
    then show ?thesis by (simp add: ob_def body_of_inject_empty)
  next
    case (Some a)
    then show ?thesis by (simp add: ob_def body_of_inject)
  qed
  have run: "build_request_heap key method params data True h
        = Some (length h, Some (Suc (length h)), (h @ [fresh]) @ [inject key ob])"
    using assms(3) by (simp add: build_request_heap_def p d alloc_def nth_append list_update_append)
  show ?thesis using run fd bo by (simp add: nth_append)
qed

lemma build_request_heap_plain:
  assumes "valid_ref h params"
  shows "\<exists>h'. build_request_heap key method params data False h = Some (length h, data, h')
     \<and> length h' = Suc (length h)
     \<and> (\<forall>a < length h. h' ! a = h ! a)
     \<and> dict_of (h' ! length h) = (case params of None \<Rightarrow> [] | Some a \<Rightarrow> dict_of (h ! a))"
proof -
  define fresh where "fresh = (case params of None \<Rightarrow> ODict []
      | Some a \<Rightarrow> if obj_truthy (h ! a) then ODict (dict_of (h ! a)) else ODict [])"
  have p: "(case params of None \<Rightarrow> Some (ODict [])
            | Some a \<Rightarrow> map_option (\<lambda>ob. if obj_truthy ob then ODict (dict_of ob) else ODict [])
                          (deref h a)) = Some fresh"
    using assms(1) by (auto simp: fresh_def valid_ref_def deref_def split: option.splits)
  have fd: "dict_of fresh = (case params of None \<Rightarrow> [] | Some a \<Rightarrow> dict_of (h ! a))"
    using dict_of_fresh by (auto simp: fresh_def dict_of_def split: option.splits)
  have run: "build_request_heap key method params data False h = Some (length h, data, h @ [fresh])"
    by (simp add: build_request_heap_def p alloc_def)
  show ?thesis using run fd by (simp add: nth_append)
qed

lemma frame_read:
  "valid_ref h data \<Longrightarrow> \<forall>a < length h. h' ! a = h ! a \<Longrightarrow>
   map_option (\<lambda>a. body_of (h' ! a)) data = map_option (\<lambda>a. body_of (h ! a)) data"
  by (cases data) (simp_all add: valid_ref_def)

text \<open>
  C9. Whatever the method and whether or not the key is required, the part of
  \<open>_request_json\<close> that prepares the request changes no object that existed before the
  call, so the caller's \<open>params\<close> and \<open>data\<close> are as they were. The parameters sent are a
  new object; when the key goes into the body, the body sent is a new object too. What
  these objects hold is what the value-level \<open>build_request\<close> computes from the caller's
  values, the key included.
\<close>

theorem caller_containers_unchanged:
  assumes "valid_ref h params" and "valid_ref h data"
  shows "\<exists>rp rd h'. build_request_heap key method params data requires_api_key h = Some (rp, rd, h')
     \<and> length h \<le> rp
     \<and> (\<forall>a < length h. h' ! a = h ! a)
     \<and> build_request key method (map_option (\<lambda>a. dict_of (h ! a)) params)
          (map_option (\<lambda>a. body_of (h ! a)) data) requires_api_key
        = (dict_of (h' ! rp), map_option (\<lambda>a. body_of (h' ! a)) rd)
     \<and> (requires_api_key \<and> upper method \<noteq> ''GET'' \<longrightarrow> rd = Some (Suc (length h)))"
proof (cases requires_api_key)
  case False
  obtain h' where h': "build_request_heap key method params data False h = Some (length h, data, h')"
      "\<forall>a < length h. h' ! a = h ! a"
      "dict_of (h' ! length h) = (case params of None \<Rightarrow> [] | Some a \<Rightarrow> dict_of (h ! a))"
    using build_request_heap_plain[OF assms(1), of key "method" "data"] by blast
  have "build_request key method (map_option (\<lambda>a. dict_of (h ! a)) params)
          (map_option (\<lambda>a. body_of (h ! a)) data) False
        = (dict_of (h' ! length h), map_option (\<lambda>a. body_of (h' ! a)) data)"
    using h'(3) frame_read[OF assms(2) h'(2)]
    by (cases params) (simp_all add: build_request_def)
  with h' False show ?thesis by auto
next
  case True
  show ?thesis
  proof (cases "upper method = ''GET''")
    case get: True
    obtain h' where h': "build_request_heap key method params data True h = Some (length h, data, h')"
        "\<forall>a < length h. h' ! a = h ! a"
        "dict_of (h' ! length h)
         = dict_set (case params of None \<Rightarrow> [] | Some a \<Rightarrow> dict_of (h ! a)) ''key'' (JStr key)"
      using build_request_heap_get[OF assms get, of key] by blast
    have "build_request key method (map_option (\<lambda>a. dict_of (h ! a)) params)
            (map_option (\<lambda>a. body_of (h ! a)) data) True
          = (dict_of (h' ! length h), map_option (\<lambda>a. body_of (h' ! a)) data)"
      using h'(3) frame_read[OF assms(2) h'(2)] get
      by (cases params) (simp_all add: build_request_def)
    with h' True get show ?thesis by auto
  next
    case other: False
    obtain h' where h': "build_request_heap key method params data True h
          = Some (length h, Some (Suc (length h)), h')"
        "\<forall>a < length h. h' ! a = h ! a"
        "dict_of (h' ! length h) = (case params of None \<Rightarrow> [] | Some a \<Rightarrow> dict_of (h ! a))"
        "body_of (h' ! Suc (length h))
         = with_key key (case data of None \<Rightarrow> None | Some a \<Rightarrow> Some (body_of (h ! a)))"
      using build_request_heap_other[OF assms other, of key] by blast
    have "build_request key method (map_option (\<lambda>a. dict_of (h ! a)) params)
            (map_option (\<lambda>a. body_of (h ! a)) data) True
          = (dict_of (h' ! length h), map_option (\<lambda>a. body_of (h' ! a)) (Some (Suc (length h))))"
      using h'(3) h'(4) other
      by (cases params; cases data) (simp_all add: build_request_def)
    with h' True other show ?thesis by auto
  qed
qed

lemma upper_post: "upper ''post'' \<noteq> ''GET''"
  by code_simp

theorem caller_containers_unchanged_witness:
  "valid_ref caller_heap (Some 0) \<and> valid_ref caller_heap (Some 1)
   \<and> (\<exists>rp rd h'. build_request_heap ''k'' ''post'' (Some 0) (Some 1) True caller_heap = Some (rp, rd, h')
        \<and> h' ! 0 = ODict [(''hash'', JStr ''abc'')]
        \<and> h' ! 1 = OList [(''hashes[]'', JStr ''abc'')]
        \<and> rd = Some 3)"
proof -
  have v: "valid_ref caller_heap (Some 0)" "valid_ref caller_heap (Some 1)"
    by (simp_all add: valid_ref_def caller_heap_def)
  have l: "length caller_heap = 2" "caller_heap ! 0 = ODict [(''hash'', JStr ''abc'')]"
      "caller_heap ! 1 = OList [(''hashes[]'', JStr ''abc'')]"
    by (simp_all add: caller_heap_def)
  obtain rp rd h' where r: "build_request_heap ''k'' ''post'' (Some 0) (Some 1) True caller_heap = Some (rp, rd, h')"
      "\<forall>a < length caller_heap. h' ! a = caller_heap ! a"
      "True \<and> upper ''post'' \<noteq> ''GET'' \<longrightarrow> rd = Some (Suc (length caller_heap))"
    using caller_containers_unchanged[OF v, of "''k''" "''post''" True] by blast
  from r(2) l have "h' ! 0 = ODict [(''hash'', JStr ''abc'')]" "h' ! 1 = OList [(''hashes[]'', JStr ''abc'')]"
    by simp_all
  moreover from r(3) l upper_post have "rd = Some 3" by simp
  ultimately show ?thesis using v r(1) by blast
qed

section \<open>Sorting the jobs\<close>

















lemma strip_k: "strip ''k'' = ''k''"
  by code_simp

lemma get_jobs_unfiltered:
  "fst (get_jobs (jobs_env rows) s r None None (init ''k'' t) w)
     = sort_jobs (jobs_env rows) s r (JArr rows)"
  by (simp add: get_jobs_def request_json_def build_request_def jobs_env_def apply_filter_def
      check_payload_def get_or_def Let_def init_def strip_k upper_GET)









text \<open>
  C4 at a column that holds the text 10 in one row and the text abc in the other, and at
  a column that holds a number in one row and is absent from the other. \<open>_sort_value\<close>
  gives the number 10 and the string abc, and the number 5 and the empty string; \<open>sorted\<close>
  compares a number with a string, and \<open>get_jobs\<close> ends with the TypeError of that
  comparison instead of a sorted list.
\<close>

theorem mixed_column_raises:
  "sort_value (jobs_env mixed_rows) (JStr ''10'') = KNum 10
   \<and> sort_value (jobs_env mixed_rows) (JStr ''abc'') = KStr ''abc''
   \<and> sort_value (jobs_env sparse_rows) JNull = KStr []
   \<and> fst (get_jobs (jobs_env mixed_rows) ''hints'' False None None (init ''k'' 20) world0)
       = Inl TypeError
   \<and> fst (get_jobs (jobs_env mixed_rows) ''hints'' True None None (init ''k'' 20) world0)
       = Inl TypeError
   \<and> fst (get_jobs (jobs_env sparse_rows) ''left'' False None None (init ''k'' 20) world0)
       = Inl TypeError"
proof -
  have a: "sort_value (jobs_env mixed_rows) (JStr ''10'') = KNum 10"
    by code_simp
  have b: "sort_value (jobs_env mixed_rows) (JStr ''abc'') = KStr ''abc''"
    by code_simp
  have c: "sort_value (jobs_env sparse_rows) JNull = KStr []"
    by (simp add: sort_value_def)
  have d: "sort_jobs (jobs_env mixed_rows) ''hints'' False (JArr mixed_rows) = Inl TypeError"
    by code_simp
  have e: "sort_jobs (jobs_env mixed_rows) ''hints'' True (JArr mixed_rows) = Inl TypeError"
    by code_simp
  have f: "sort_jobs (jobs_env sparse_rows) ''left'' False (JArr sparse_rows) = Inl TypeError"
    by code_simp
  show ?thesis by (simp add: get_jobs_unfiltered a b c d e f)
qed

section \<open>Left-list downloads\<close>































lemma total_size_abc: "total_size (Some ''abc'') = None"
  by code_simp

lemma int_of_str_abc: "int_of_str ''abc'' = None"
  by code_simp

text \<open>
  C7 at two batches that are not empty. In the first the host answers the first job with
  a Content-Length header that is not a number: \<open>int\<close> raises ValueError inside
  \<open>_stream_download\<close>, no \<open>except\<close> clause names it, and \<open>download_left_lists\<close> ends with
  that error after one request; the second job is not attempted and nothing is recorded.
  In the second batch the one job has no left list and an id that is not a number:
  \<open>int(job.get("id", 0))\<close> raises while the failure is being recorded. The empty batch
  fails with the client's error and leaves the world as it was.
\<close>

theorem malformed_reply_ends_batch:
  "download_left_lists E [] dest op w = (Inl NoJobsSelected, w)
   \<and> fst (download_left_lists garbled_env [left_job 7 ''/a.txt'', left_job 8 ''/b.txt'']
        ''out.txt'' False world0) = Inl ValueError
   \<and> fetched (snd (download_left_lists garbled_env [left_job 7 ''/a.txt'', left_job 8 ''/b.txt'']
        ''out.txt'' False world0)) = [DOWNLOAD_BASE_URL @ ''/a.txt'']
   \<and> fst (download_left_lists sample_env [[(''id'', JStr ''abc'')]] ''out.txt'' False world0)
       = Inl ValueError"
proof -
  have 1: "download_left_lists E [] dest op w = (Inl NoJobsSelected, w)"
    by (simp add: download_left_lists_def)
  have s: "stream_download garbled_env ''/a.txt'' ''out.txt'' False None world0
      = (Inl ValueError, world0\<lparr>fetched := fetched world0 @ [DOWNLOAD_BASE_URL @ ''/a.txt'']\<rparr>)"
    by (simp add: stream_download_def garbled_env_def sample_env_def total_size_abc Let_def)
  have 2: "download_left_lists garbled_env [left_job 7 ''/a.txt'', left_job 8 ''/b.txt'']
        ''out.txt'' False world0
      = (Inl ValueError, world0\<lparr>fetched := fetched world0 @ [DOWNLOAD_BASE_URL @ ''/a.txt'']\<rparr>)"
    by (simp add: download_left_lists_def left_job_def get_or_def py_str_def Let_def s)
  have 3: "fst (download_left_lists sample_env [[(''id'', JStr ''abc'')]] ''out.txt'' False world0)
       = Inl ValueError"
    by (simp add: download_left_lists_def get_or_def py_str_def py_int_def int_of_str_abc Let_def)
  from 1 2 3 show ?thesis by (simp add: world0_def)
qed

end
